theory Spec2Isabelle
  imports Complex_Main "HOL-Library.Sublist"
begin

section \<open>The persisted data (create-tables.sql, interfaces of db-service.ts)\<close>

text \<open>
  The three tables of \<^verbatim>\<open>create-tables.sql\<close>. A table whose key column is declared
  \<^verbatim>\<open>UNIQUE\<close> is a finite map from that key to the remaining columns:
  \<^verbatim>\<open>token_pools\<close> is keyed by \<^verbatim>\<open>token_mint\<close>, \<^verbatim>\<open>private_balances\<close> by
  \<^verbatim>\<open>(owner, token_mint)\<close>. The \<^verbatim>\<open>transactions\<close> table is the list of its rows in
  insertion order; its \<^verbatim>\<open>UNIQUE\<close> constraint on \<^verbatim>\<open>signature\<close> is checked by the
  insert. The columns the database fills in by itself (\<^verbatim>\<open>id\<close>, \<^verbatim>\<open>created_at\<close>,
  \<^verbatim>\<open>updated_at\<close>) are left out. Amounts are exact rationals: the rounding of
  JavaScript doubles and of \<^verbatim>\<open>DECIMAL(36, 18)\<close> is not part of the model. The database
  is taken to be reachable: the only errors of a statement are violations of its constraints.
\<close>

record TokenPool =
  decimals :: int
  poolAddress :: string
  totalShielded :: rat
  totalUnshielded :: rat

record PrivateBalance =
  balance :: rat
  lastCommitmentIndex :: int

datatype tx_type = Shield | Send | Unshield

record Transaction =
  owner :: string
  txType :: tx_type
  tokenMint :: string
  tokenSymbol :: string
  amount :: rat
  timestamp :: int
  recipient :: "string option"
  signature :: string

record db =
  token_pools :: "string \<rightharpoonup> TokenPool"
  private_balances :: "(string \<times> string) \<rightharpoonup> PrivateBalance"
  transactions :: "Transaction list"

text \<open>
  What a call can throw. The two errors of \<^verbatim>\<open>updatePrivateBalance\<close> are
  \<^verbatim>\<open>Error("Insufficient private balance")\<close> and
  \<^verbatim>\<open>Error("Cannot deduct from non-existent balance")\<close>; the three \<open>Duplicate\<close> errors are
  the violations of the three \<^verbatim>\<open>UNIQUE\<close> constraints; \<open>UndefinedRow\<close> is the TypeError of
  reading a column of \<^verbatim>\<open>result[0]\<close> when the statement returned no row;
  \<open>ExternalFailure\<close> is an exception of a collaborator (RPC node, key parsing).
\<close>

datatype error =
    InsufficientBalance
  | UnknownBalance
  | DuplicateSignature
  | DuplicateMint
  | DuplicateBalance
  | UndefinedRow
  | ExternalFailure

section \<open>Balance ledger (db-service.ts)\<close>

definition getPrivateBalance :: "db \<Rightarrow> string \<Rightarrow> string \<Rightarrow> PrivateBalance option" where
  "getPrivateBalance d ownr mint = private_balances d (ownr, mint)"

text \<open>
  The part of \<^verbatim>\<open>updatePrivateBalance\<close> after the \<^verbatim>\<open>await getPrivateBalance\<close>: it works
  on the record that was read (\<open>existingBalance\<close>), which under concurrency may be stale.
  The \<^verbatim>\<open>UPDATE\<close> writes the absolute value \<open>newBalance\<close>; the \<^verbatim>\<open>INSERT\<close> is subject to
  the \<^verbatim>\<open>UNIQUE(owner, token_mint)\<close> constraint.
\<close>

definition updatePrivateBalance_write ::
  "db \<Rightarrow> string \<Rightarrow> string \<Rightarrow> rat \<Rightarrow> bool \<Rightarrow> PrivateBalance option \<Rightarrow> (error + PrivateBalance) \<times> db" where
  "updatePrivateBalance_write d ownr mint amnt isAddition existingBalance =
     (case existingBalance of
        Some existing \<Rightarrow>
          (let currentBalance = balance existing;
               newBalance = (if isAddition then currentBalance + amnt else currentBalance - amnt)
           in if newBalance < 0 then (Inl InsufficientBalance, d)
              else (case private_balances d (ownr, mint) of
                      None \<Rightarrow> (Inl UndefinedRow, d)
                    | Some row \<Rightarrow>
                        (let row' = row\<lparr>balance := newBalance\<rparr>
                         in (Inr row', d\<lparr>private_balances := (private_balances d)((ownr, mint) \<mapsto> row')\<rparr>))))
      | None \<Rightarrow>
          (if isAddition then
             (case private_balances d (ownr, mint) of
                Some _ \<Rightarrow> (Inl DuplicateBalance, d)
              | None \<Rightarrow>
                  (let row' = \<lparr>balance = amnt, lastCommitmentIndex = 0\<rparr>
                   in (Inr row', d\<lparr>private_balances := (private_balances d)((ownr, mint) \<mapsto> row')\<rparr>)))
           else (Inl UnknownBalance, d)))"

definition updatePrivateBalance ::
  "db \<Rightarrow> string \<Rightarrow> string \<Rightarrow> rat \<Rightarrow> bool \<Rightarrow> (error + PrivateBalance) \<times> db" where
  "updatePrivateBalance d ownr mint amnt isAddition =
     updatePrivateBalance_write d ownr mint amnt isAddition (getPrivateBalance d ownr mint)"

text \<open>
  Concurrent callers. A call of \<^verbatim>\<open>updatePrivateBalance\<close> suspends at its
  \<^verbatim>\<open>await\<close>s, and each SQL statement is executed by the database on its own, so a
  call is two atomic steps: the \<^verbatim>\<open>SELECT\<close> of \<^verbatim>\<open>getPrivateBalance\<close>, then the check
  and the \<^verbatim>\<open>UPDATE\<close> or \<^verbatim>\<open>INSERT\<close>. Between the two, steps of other calls may run.
\<close>

datatype upb_task =
    Start
  | AfterRead "PrivateBalance option"
  | Finished "error + PrivateBalance"

record upb_call =
  call_owner :: string
  call_tokenMint :: string
  call_amount :: rat
  call_isAddition :: bool

fun upb_step :: "upb_call \<Rightarrow> upb_task \<times> db \<Rightarrow> upb_task \<times> db" where
  "upb_step c (Start, d) = (AfterRead (getPrivateBalance d (call_owner c) (call_tokenMint c)), d)"
| "upb_step c (AfterRead existingBalance, d) =
     (case updatePrivateBalance_write d (call_owner c) (call_tokenMint c) (call_amount c)
             (call_isAddition c) existingBalance of
        (res, d') \<Rightarrow> (Finished res, d'))"
| "upb_step c (Finished res, d) = (Finished res, d)"

text \<open>
  Two calls under a schedule: each entry of the schedule says which of the two calls
  takes its next step (\<open>False\<close> the first, \<open>True\<close> the second).
\<close>

fun run2 :: "upb_call \<Rightarrow> upb_call \<Rightarrow> bool list \<Rightarrow> upb_task \<times> upb_task \<times> db \<Rightarrow> upb_task \<times> upb_task \<times> db" where
  "run2 c1 c2 [] s = s"
| "run2 c1 c2 (False # sched) (t1, t2, d) =
     (case upb_step c1 (t1, d) of (t1', d') \<Rightarrow> run2 c1 c2 sched (t1', t2, d'))"
| "run2 c1 c2 (True # sched) (t1, t2, d) =
     (case upb_step c2 (t2, d) of (t2', d') \<Rightarrow> run2 c1 c2 sched (t1, t2', d'))"

section \<open>Pool registry (db-service.ts)\<close>

definition tokenPoolExists :: "db \<Rightarrow> string \<Rightarrow> bool" where
  "tokenPoolExists d mint = (token_pools d mint \<noteq> None)"

definition getTokenPool :: "db \<Rightarrow> string \<Rightarrow> TokenPool option" where
  "getTokenPool d mint = token_pools d mint"

definition createTokenPool :: "db \<Rightarrow> string \<Rightarrow> int \<Rightarrow> string \<Rightarrow> (error + TokenPool) \<times> db" where
  "createTokenPool d mint dec addr =
     (case token_pools d mint of
        Some _ \<Rightarrow> (Inl DuplicateMint, d)
      | None \<Rightarrow>
          (let row = \<lparr>decimals = dec, poolAddress = addr, totalShielded = 0, totalUnshielded = 0\<rparr>
           in (Inr row, d\<lparr>token_pools := (token_pools d)(mint \<mapsto> row)\<rparr>)))"

text \<open>
  \<^verbatim>\<open>UPDATE token_pools SET total_shielded = total_shielded + amount WHERE token_mint = ...\<close>:
  one statement; with no matching row it updates nothing and raises nothing, and the
  function does not look at the number of rows updated.
\<close>

definition updateTokenPoolShielded :: "db \<Rightarrow> string \<Rightarrow> rat \<Rightarrow> (error + unit) \<times> db" where
  "updateTokenPoolShielded d mint amnt =
     (case token_pools d mint of
        None \<Rightarrow> (Inr (), d)
      | Some p \<Rightarrow>
          (Inr (), d\<lparr>token_pools := (token_pools d)(mint \<mapsto> p\<lparr>totalShielded := totalShielded p + amnt\<rparr>)\<rparr>))"

definition updateTokenPoolUnshielded :: "db \<Rightarrow> string \<Rightarrow> rat \<Rightarrow> (error + unit) \<times> db" where
  "updateTokenPoolUnshielded d mint amnt =
     (case token_pools d mint of
        None \<Rightarrow> (Inr (), d)
      | Some p \<Rightarrow>
          (Inr (), d\<lparr>token_pools := (token_pools d)(mint \<mapsto> p\<lparr>totalUnshielded := totalUnshielded p + amnt\<rparr>)\<rparr>))"

section \<open>Transaction log (db-service.ts)\<close>

text \<open>
  \<open>now\<close> is the value \<^verbatim>\<open>Date.now()\<close> returns inside the call. The insert fails on the
  \<^verbatim>\<open>UNIQUE\<close> constraint of \<^verbatim>\<open>transactions.signature\<close> (create-tables.sql, line 34)
  and the function rethrows the database's error.
\<close>

definition recordTransaction ::
  "db \<Rightarrow> string \<Rightarrow> tx_type \<Rightarrow> string \<Rightarrow> string \<Rightarrow> rat \<Rightarrow> string \<Rightarrow> string option \<Rightarrow> int
     \<Rightarrow> (error + Transaction) \<times> db" where
  "recordTransaction d ownr ty mint symbol amnt sig rcpt now =
     (if sig \<in> set (map signature (transactions d)) then (Inl DuplicateSignature, d)
      else
        (let row = \<lparr>owner = ownr, txType = ty, tokenMint = mint, tokenSymbol = symbol,
                    amount = amnt, timestamp = now, recipient = rcpt, signature = sig\<rparr>
         in (Inr row, d\<lparr>transactions := transactions d @ [row]\<rparr>)))"

text \<open>
  \<^verbatim>\<open>if (tokenMint)\<close> is false for an absent mint and for the empty string. \<^verbatim>\<open>limit\<close>
  defaults to 50 when absent. \<^verbatim>\<open>ORDER BY timestamp DESC\<close> leaves the order of rows with
  equal timestamps open; the model keeps them in insertion order. A negative \<^verbatim>\<open>LIMIT\<close> is
  an error of the database, which the function catches, returning the empty list.
\<close>

definition getTransactions :: "db \<Rightarrow> string \<Rightarrow> string option \<Rightarrow> int option \<Rightarrow> Transaction list" where
  "getTransactions d ownr mint lmt =
     (let limit = (case lmt of None \<Rightarrow> 50 | Some n \<Rightarrow> n);
          rows = (case mint of
                    None \<Rightarrow> filter (\<lambda>t. owner t = ownr) (transactions d)
                  | Some m \<Rightarrow>
                      if m \<noteq> [] then filter (\<lambda>t. owner t = ownr \<and> tokenMint t = m) (transactions d)
                      else filter (\<lambda>t. owner t = ownr) (transactions d))
      in if limit < 0 then []
         else take (nat limit) (sort_key (\<lambda>t. - timestamp t) rows))"

definition getTransactionBySignature :: "db \<Rightarrow> string \<Rightarrow> Transaction option" where
  "getTransactionBySignature d sig = find (\<lambda>t. signature t = sig) (transactions d)"

section \<open>The relayer's operations (relayer.ts)\<close>

text \<open>
  A field of the request body is absent (\<open>None\<close>) or present; \<^verbatim>\<open>!field\<close> holds for an
  absent field, for the empty string and for the number 0. Fields are taken at the types
  the functions of db-service.ts declare for them.
\<close>

definition missing_str :: "string option \<Rightarrow> bool" where
  "missing_str s = (s = None \<or> s = Some [])"

definition missing_num :: "rat option \<Rightarrow> bool" where
  "missing_num a = (a = None \<or> a = Some 0)"

datatype response =
    Ok_success
  | Ok_signature string
  | Bad_request string
  | Server_error error
  | Internal_server_error

text \<open>
  \<^verbatim>\<open>${Date.now()}\<close> inside a template string: the decimal digits of the number, most
  significant first, after a minus sign when it is negative.
\<close>

definition digit :: "nat \<Rightarrow> char" where
  "digit k = ''0123456789'' ! k"

fun digits :: "nat \<Rightarrow> string" where
  "digits n = (if 10 \<le> n then digits (n div 10) @ [digit (n mod 10)] else [digit n])"

declare digits.simps [simp del]

definition toString :: "int \<Rightarrow> string" where
  "toString i = (if 0 \<le> i then digits (nat i) else CHR ''-'' # digits (nat (- i)))"

text \<open>
  The display symbol, computed the same way in all three operations:
  \<^verbatim>\<open>"UNKNOWN"\<close> unless the pool exists, then \<^verbatim>\<open>"SOL"\<close> or the first four characters.
\<close>

definition resolveSymbol :: "db \<Rightarrow> string \<Rightarrow> string" where
  "resolveSymbol d mint =
     (case getTokenPool d mint of
        None \<Rightarrow> ''UNKNOWN''
      | Some _ \<Rightarrow> (if mint = ''SOL'' then ''SOL'' else take 4 mint))"

text \<open>
  Collaborators are parameters: \<open>getPoolAddress\<close> is the address derivation
  (\<open>None\<close> when it throws), \<open>getTransaction\<close> the chain reader of \<^verbatim>\<open>/shield/notify\<close>,
  \<open>splPrepare\<close> says whether the key parsing and account lookup of \<^verbatim>\<open>/unshield\<close> for
  an SPL token complete without an exception.
\<close>

datatype chain_tx = TxConfirmed | TxNotFound | RpcFailure

definition getOrCreateTokenPool ::
  "(string \<Rightarrow> string option) \<Rightarrow> db \<Rightarrow> string \<Rightarrow> int \<Rightarrow> (error + TokenPool) \<times> db" where
  "getOrCreateTokenPool getPoolAddress d mint dec =
     (case getTokenPool d mint of
        Some existingPool \<Rightarrow> (Inr existingPool, d)
      | None \<Rightarrow>
          (case getPoolAddress mint of
             None \<Rightarrow> (Inl ExternalFailure, d)
           | Some addr \<Rightarrow> createTokenPool d mint dec addr))"

text \<open>
  \<^verbatim>\<open>app.post("/shield/notify")\<close>. Any exception ends in the handler's \<^verbatim>\<open>catch\<close>, which
  answers 500; what was written before the exception stays written. \<open>now\<close> is the
  clock value read by \<open>recordTransaction\<close>.
\<close>

definition shield_notify ::
  "(string \<Rightarrow> chain_tx) \<Rightarrow> int \<Rightarrow> db
     \<Rightarrow> string option \<Rightarrow> string option \<Rightarrow> rat option \<Rightarrow> string option \<Rightarrow> string option
     \<Rightarrow> response \<times> db" where
  "shield_notify getTransaction now d txSignature mint amnt commitment ownr =
     (if missing_str txSignature \<or> missing_str mint \<or> missing_num amnt
         \<or> missing_str commitment \<or> missing_str ownr
      then (Bad_request ''Missing required parameters'', d)
      else
        (case getTransaction (the txSignature) of
           RpcFailure \<Rightarrow> (Internal_server_error, d)
         | TxNotFound \<Rightarrow> (Bad_request ''Transaction not found'', d)
         | TxConfirmed \<Rightarrow>
             (case updatePrivateBalance d (the ownr) (the mint) (the amnt) True of
                (Inl e, d1) \<Rightarrow> (Internal_server_error, d1)
              | (Inr _, d1) \<Rightarrow>
                  (case updateTokenPoolShielded d1 (the mint) (the amnt) of
                     (Inl e, d2) \<Rightarrow> (Internal_server_error, d2)
                   | (Inr _, d2) \<Rightarrow>
                       (case recordTransaction d2 (the ownr) Shield (the mint)
                               (resolveSymbol d2 (the mint)) (the amnt) (the txSignature) None now of
                          (Inl e, d3) \<Rightarrow> (Internal_server_error, d3)
                        | (Inr _, d3) \<Rightarrow> (Ok_success, d3))))))"

text \<open>
  \<^verbatim>\<open>app.post("/send")\<close>. \<open>nowSig\<close> is the clock value read for the signature, \<open>now\<close>
  the one read by \<open>recordTransaction\<close>. The proof is not looked at beyond its presence.
\<close>

definition send ::
  "int \<Rightarrow> int \<Rightarrow> db
     \<Rightarrow> string option \<Rightarrow> rat option \<Rightarrow> string option \<Rightarrow> string option \<Rightarrow> string option
     \<Rightarrow> response \<times> db" where
  "send nowSig now d mint amnt rcpt proof sender =
     (if missing_str mint \<or> missing_num amnt \<or> missing_str rcpt
         \<or> missing_str proof \<or> missing_str sender
      then (Bad_request ''Missing required parameters'', d)
      else
        (case updatePrivateBalance d (the sender) (the mint) (the amnt) False of
           (Inl e, d1) \<Rightarrow> (Server_error e, d1)
         | (Inr _, d1) \<Rightarrow>
             (case updatePrivateBalance d1 (the rcpt) (the mint) (the amnt) True of
                (Inl e, d2) \<Rightarrow> (Server_error e, d2)
              | (Inr _, d2) \<Rightarrow>
                  (let sig = ''simulated-send-'' @ toString nowSig
                   in (case recordTransaction d2 (the sender) Send (the mint)
                               (resolveSymbol d2 (the mint)) (the amnt) sig rcpt now of
                         (Inl e, d3) \<Rightarrow> (Server_error e, d3)
                       | (Inr _, d3) \<Rightarrow> (Ok_signature sig, d3))))))"

text \<open>\<^verbatim>\<open>app.post("/unshield")\<close>. The transaction it builds is never sent.\<close>

definition unshield ::
  "(string \<Rightarrow> string option) \<Rightarrow> (string \<Rightarrow> string \<Rightarrow> string \<Rightarrow> bool) \<Rightarrow> int \<Rightarrow> int \<Rightarrow> db
     \<Rightarrow> string option \<Rightarrow> rat option \<Rightarrow> string option \<Rightarrow> string option \<Rightarrow> string option
     \<Rightarrow> response \<times> db" where
  "unshield getPoolAddress splPrepare nowSig now d mint amnt rcpt proof sender =
     (if missing_str mint \<or> missing_num amnt \<or> missing_str rcpt
         \<or> missing_str proof \<or> missing_str sender
      then (Bad_request ''Missing required parameters'', d)
      else
        (case updatePrivateBalance d (the sender) (the mint) (the amnt) False of
           (Inl e, d1) \<Rightarrow> (Server_error e, d1)
         | (Inr _, d1) \<Rightarrow>
             (case updateTokenPoolUnshielded d1 (the mint) (the amnt) of
                (Inl e, d2) \<Rightarrow> (Server_error e, d2)
              | (Inr _, d2) \<Rightarrow>
                  (case getOrCreateTokenPool getPoolAddress d2 (the mint) 0 of
                     (Inl e, d3) \<Rightarrow> (Server_error e, d3)
                   | (Inr pool, d3) \<Rightarrow>
                       (if the mint \<noteq> ''SOL'' \<and> \<not> splPrepare (the mint) (poolAddress pool) (the rcpt)
                        then (Server_error ExternalFailure, d3)
                        else
                          (let sig = ''simulated-unshield-'' @ toString nowSig
                           in (case recordTransaction d3 (the sender) Unshield (the mint)
                                       (resolveSymbol d3 (the mint)) (the amnt) sig None now of
                                 (Inl e, d4) \<Rightarrow> (Server_error e, d4)
                               | (Inr _, d4) \<Rightarrow> (Ok_signature sig, d4))))))))"


section \<open>Example databases\<close>

text \<open>Owner \<open>A\<close> holds 100 of \<open>SOL\<close>; no pool, empty log.\<close>

definition db_A100 :: db where
  "db_A100 =
     \<lparr>token_pools = Map.empty,
      private_balances = [(''A'', ''SOL'') \<mapsto> \<lparr>balance = 100, lastCommitmentIndex = 0\<rparr>],
      transactions = []\<rparr>"

text \<open>A call that debits the whole balance of \<open>A\<close>.\<close>

definition debit_all :: upb_call where
  "debit_all = \<lparr>call_owner = ''A'', call_tokenMint = ''SOL'', call_amount = 100, call_isAddition = False\<rparr>"

text \<open>The same with a pool for \<open>SOL\<close>.\<close>

definition db_pool :: db where
  "db_pool =
     db_A100\<lparr>token_pools :=
       [''SOL'' \<mapsto> \<lparr>decimals = 9, poolAddress = ''pool'', totalShielded = 100, totalUnshielded = 0\<rparr>]\<rparr>"

text \<open>A log of two shield transactions of \<open>A\<close> recorded in the same millisecond.\<close>

definition tx1 :: Transaction where
  "tx1 = \<lparr>owner = ''A'', txType = Shield, tokenMint = ''SOL'', tokenSymbol = ''SOL'',
          amount = 60, timestamp = 1000, recipient = None, signature = ''sig1''\<rparr>"

definition tx2 :: Transaction where
  "tx2 = \<lparr>owner = ''A'', txType = Shield, tokenMint = ''SOL'', tokenSymbol = ''SOL'',
          amount = 40, timestamp = 1000, recipient = None, signature = ''sig2''\<rparr>"

definition db_log2 :: db where
  "db_log2 = db_pool\<lparr>transactions := [tx1, tx2]\<rparr>"





section \<open>Properties of the balance ledger\<close>

lemma updatePrivateBalance_simps:
  "updatePrivateBalance d ownr mint amnt isAddition =
     (case private_balances d (ownr, mint) of
        Some row \<Rightarrow>
          (let newBalance = (if isAddition then balance row + amnt else balance row - amnt)
           in if newBalance < 0 then (Inl InsufficientBalance, d)
              else (Inr (row\<lparr>balance := newBalance\<rparr>),
                    d\<lparr>private_balances := (private_balances d)((ownr, mint) \<mapsto> row\<lparr>balance := newBalance\<rparr>)\<rparr>))
      | None \<Rightarrow>
          (if isAddition then
             (Inr \<lparr>balance = amnt, lastCommitmentIndex = 0\<rparr>,
              d\<lparr>private_balances := (private_balances d)((ownr, mint) \<mapsto> \<lparr>balance = amnt, lastCommitmentIndex = 0\<rparr>)\<rparr>)
           else (Inl UnknownBalance, d)))"
  by (simp add: updatePrivateBalance_def updatePrivateBalance_write_def getPrivateBalance_def
      Let_def split: option.splits)



section \<open>Concurrent debits\<close>

text \<open>Run one after the other, the two steps of a call are \<open>updatePrivateBalance\<close>.\<close>

lemma upb_step_twice:
  "upb_step c (upb_step c (Start, d)) =
     (Finished (fst (updatePrivateBalance d (call_owner c) (call_tokenMint c) (call_amount c) (call_isAddition c))),
      snd (updatePrivateBalance d (call_owner c) (call_tokenMint c) (call_amount c) (call_isAddition c)))"
  by (simp add: updatePrivateBalance_def split: prod.splits)

text \<open>
  When the first call finishes before the second starts, the second debit of the full
  balance is refused.
\<close>

lemma run2_sequential:
  "run2 debit_all debit_all [False, False, True, True] (Start, Start, db_A100) =
     (Finished (Inr \<lparr>balance = 0, lastCommitmentIndex = 0\<rparr>),
      Finished (Inl InsufficientBalance),
      db_A100\<lparr>private_balances := [(''A'', ''SOL'') \<mapsto> \<lparr>balance = 0, lastCommitmentIndex = 0\<rparr>]\<rparr>)"
  by (simp add: debit_all_def db_A100_def getPrivateBalance_def updatePrivateBalance_write_def Let_def)

text \<open>
  When both calls read before either writes, both debits of the full balance go through,
  whatever the balance and the key.
\<close>

lemma interleaved_full_debits:
  assumes "private_balances d (ownr, mint) = Some row" and "0 \<le> balance row"
  shows "run2 \<lparr>call_owner = ownr, call_tokenMint = mint, call_amount = balance row, call_isAddition = False\<rparr>
              \<lparr>call_owner = ownr, call_tokenMint = mint, call_amount = balance row, call_isAddition = False\<rparr>
              [False, True, False, True] (Start, Start, d) =
           (Finished (Inr (row\<lparr>balance := 0\<rparr>)), Finished (Inr (row\<lparr>balance := 0\<rparr>)),
            d\<lparr>private_balances := (private_balances d)((ownr, mint) \<mapsto> row\<lparr>balance := 0\<rparr>)\<rparr>)"
  using assms
  by (simp add: getPrivateBalance_def updatePrivateBalance_write_def Let_def)

text \<open>
  C1. The claim asks that of two concurrent debits of the full balance of one
  \<open>(owner, tokenMint)\<close> exactly one succeeds. In the code both can succeed: when both
  calls read the balance (100) before either writes, each computes the new balance 0
  from what it read, passes the check and writes 0. Both calls return a record and 200 was
  debited from a balance of 100.
\<close>

theorem concurrent_full_debits_both_succeed:
  "run2 debit_all debit_all [False, True, False, True] (Start, Start, db_A100) =
     (Finished (Inr \<lparr>balance = 0, lastCommitmentIndex = 0\<rparr>),
      Finished (Inr \<lparr>balance = 0, lastCommitmentIndex = 0\<rparr>),
      db_A100\<lparr>private_balances := [(''A'', ''SOL'') \<mapsto> \<lparr>balance = 0, lastCommitmentIndex = 0\<rparr>]\<rparr>)"
  by (simp add: debit_all_def db_A100_def getPrivateBalance_def updatePrivateBalance_write_def Let_def)

section \<open>What each database call leaves alone\<close>

lemma updatePrivateBalance_frame:
  assumes "updatePrivateBalance d ownr mint amnt isAddition = (res, d')"
  shows "transactions d' = transactions d" and "token_pools d' = token_pools d"
    and "\<And>k. k \<noteq> (ownr, mint) \<Longrightarrow> private_balances d' k = private_balances d k"
  using assms
  by (auto simp: updatePrivateBalance_simps Let_def split: option.splits if_splits)

lemma updatePrivateBalance_Inl:
  "updatePrivateBalance d ownr mint amnt isAddition = (Inl e, d') \<Longrightarrow> d' = d"
  by (auto simp: updatePrivateBalance_simps Let_def split: option.splits if_splits)

lemma updatePrivateBalance_Inr:
  "updatePrivateBalance d ownr mint amnt isAddition = (Inr row, d') \<Longrightarrow>
     d' = d\<lparr>private_balances := (private_balances d)((ownr, mint) \<mapsto> row)\<rparr>"
  by (auto simp: updatePrivateBalance_simps Let_def split: option.splits if_splits)

lemma updateTokenPoolShielded_frame:
  assumes "updateTokenPoolShielded d mint amnt = (res, d')"
  shows "transactions d' = transactions d" and "private_balances d' = private_balances d"
    and "res = Inr ()"
  using assms
  by (auto simp: updateTokenPoolShielded_def split: option.splits)

lemma updateTokenPoolUnshielded_frame:
  assumes "updateTokenPoolUnshielded d mint amnt = (res, d')"
  shows "transactions d' = transactions d" and "private_balances d' = private_balances d"
    and "res = Inr ()"
  using assms
  by (auto simp: updateTokenPoolUnshielded_def split: option.splits)

lemma createTokenPool_frame:
  assumes "createTokenPool d mint dec addr = (res, d')"
  shows "transactions d' = transactions d" and "private_balances d' = private_balances d"
  using assms
  by (auto simp: createTokenPool_def Let_def split: option.splits)

lemma getOrCreateTokenPool_frame:
  assumes "getOrCreateTokenPool gpa d mint dec = (res, d')"
  shows "transactions d' = transactions d" and "private_balances d' = private_balances d"
  using assms
  by (auto simp: getOrCreateTokenPool_def dest: createTokenPool_frame split: option.splits)

lemma recordTransaction_frame:
  assumes "recordTransaction d ownr ty mint symbol amnt sig rcpt now = (res, d')"
  shows "private_balances d' = private_balances d" and "token_pools d' = token_pools d"
  using assms
  by (auto simp: recordTransaction_def Let_def split: if_splits)

lemma recordTransaction_Inl:
  "recordTransaction d ownr ty mint symbol amnt sig rcpt now = (Inl e, d') \<Longrightarrow>
     d' = d \<and> e = DuplicateSignature \<and> sig \<in> set (map signature (transactions d))"
  by (auto simp: recordTransaction_def Let_def split: if_splits)

lemma recordTransaction_Inr:
  "recordTransaction d ownr ty mint symbol amnt sig rcpt now = (Inr row, d') \<Longrightarrow>
     row = \<lparr>owner = ownr, txType = ty, tokenMint = mint, tokenSymbol = symbol,
            amount = amnt, timestamp = now, recipient = rcpt, signature = sig\<rparr>
     \<and> transactions d' = transactions d @ [row]
     \<and> sig \<notin> set (map signature (transactions d))"
  by (auto simp: recordTransaction_def Let_def split: if_splits)

section \<open>The paths through the three operations\<close>

lemma not_missing_strD: "\<not> missing_str x \<Longrightarrow> \<exists>v. x = Some v \<and> v \<noteq> []"
  by (cases x) (auto simp: missing_str_def)

lemma not_missing_numD: "\<not> missing_num x \<Longrightarrow> \<exists>v. x = Some v \<and> v \<noteq> 0"
  by (cases x) (auto simp: missing_num_def)

lemma send_elim:
  assumes "send nowSig now d mint amnt rcpt prf sender = (resp, d')"
  obtains
    (missing) "missing_str mint \<or> missing_num amnt \<or> missing_str rcpt \<or> missing_str prf \<or> missing_str sender"
      "resp = Bad_request ''Missing required parameters''" "d' = d"
  | (debit_failed) m a r p s e where
      "mint = Some m" "amnt = Some a" "rcpt = Some r" "prf = Some p" "sender = Some s"
      "updatePrivateBalance d s m a False = (Inl e, d')" "resp = Server_error e"
  | (credit_failed) m a r p s row1 d1 e where
      "mint = Some m" "amnt = Some a" "rcpt = Some r" "prf = Some p" "sender = Some s"
      "updatePrivateBalance d s m a False = (Inr row1, d1)"
      "updatePrivateBalance d1 r m a True = (Inl e, d')" "resp = Server_error e"
  | (log_failed) m a r p s row1 d1 row2 d2 e where
      "mint = Some m" "amnt = Some a" "rcpt = Some r" "prf = Some p" "sender = Some s"
      "updatePrivateBalance d s m a False = (Inr row1, d1)"
      "updatePrivateBalance d1 r m a True = (Inr row2, d2)"
      "recordTransaction d2 s Send m (resolveSymbol d2 m) a
         (''simulated-send-'' @ toString nowSig) (Some r) now = (Inl e, d')"
      "resp = Server_error e"
  | (accepted) m a r p s row1 d1 row2 d2 row3 where
      "mint = Some m" "amnt = Some a" "rcpt = Some r" "prf = Some p" "sender = Some s"
      "updatePrivateBalance d s m a False = (Inr row1, d1)"
      "updatePrivateBalance d1 r m a True = (Inr row2, d2)"
      "recordTransaction d2 s Send m (resolveSymbol d2 m) a
         (''simulated-send-'' @ toString nowSig) (Some r) now = (Inr row3, d')"
      "resp = Ok_signature (''simulated-send-'' @ toString nowSig)"
proof (cases "missing_str mint \<or> missing_num amnt \<or> missing_str rcpt \<or> missing_str prf \<or> missing_str sender")
  case True
  with assms show ?thesis by (intro missing) (auto simp: send_def)
next
  case False
  then obtain m a r p s where f: "mint = Some m" "amnt = Some a" "rcpt = Some r" "prf = Some p" "sender = Some s"
    using not_missing_strD not_missing_numD by metis
  from False assms f show ?thesis
    by (auto simp: send_def Let_def split: prod.splits sum.splits
        intro: debit_failed credit_failed log_failed accepted)
qed

lemma shield_notify_elim:
  assumes "shield_notify getTransaction now d txSignature mint amnt commitment ownr = (resp, d')"
  obtains
    (missing) "missing_str txSignature \<or> missing_str mint \<or> missing_num amnt
                 \<or> missing_str commitment \<or> missing_str ownr"
      "resp = Bad_request ''Missing required parameters''" "d' = d"
  | (not_verified) "d' = d" "resp = Internal_server_error \<or> resp = Bad_request ''Transaction not found''"
  | (credit_failed) sg m a ow e where
      "txSignature = Some sg" "mint = Some m" "amnt = Some a" "ownr = Some ow"
      "updatePrivateBalance d ow m a True = (Inl e, d')" "resp = Internal_server_error"
  | (log_failed) sg m a ow row1 d1 d2 e where
      "txSignature = Some sg" "mint = Some m" "amnt = Some a" "ownr = Some ow"
      "updatePrivateBalance d ow m a True = (Inr row1, d1)"
      "updateTokenPoolShielded d1 m a = (Inr (), d2)"
      "recordTransaction d2 ow Shield m (resolveSymbol d2 m) a sg None now = (Inl e, d')"
      "resp = Internal_server_error"
  | (accepted) sg m a ow row1 d1 d2 row3 where
      "txSignature = Some sg" "mint = Some m" "amnt = Some a" "ownr = Some ow"
      "updatePrivateBalance d ow m a True = (Inr row1, d1)"
      "updateTokenPoolShielded d1 m a = (Inr (), d2)"
      "recordTransaction d2 ow Shield m (resolveSymbol d2 m) a sg None now = (Inr row3, d')"
      "resp = Ok_success"
proof (cases "missing_str txSignature \<or> missing_str mint \<or> missing_num amnt
                 \<or> missing_str commitment \<or> missing_str ownr")
  case True
  with assms show ?thesis by (intro missing) (auto simp: shield_notify_def)
next
  case False
  then obtain sg m a c ow where f: "txSignature = Some sg" "mint = Some m" "amnt = Some a"
      "commitment = Some c" "ownr = Some ow"
    using not_missing_strD not_missing_numD by metis
  from False assms f show ?thesis
    by (auto simp: shield_notify_def Let_def split: prod.splits sum.splits chain_tx.splits
        dest: updateTokenPoolShielded_frame(3)
        intro: not_verified credit_failed log_failed accepted)
qed

lemma unshield_elim:
  assumes "unshield getPoolAddress splPrepare nowSig now d mint amnt rcpt prf sender = (resp, d')"
  obtains
    (missing) "missing_str mint \<or> missing_num amnt \<or> missing_str rcpt \<or> missing_str prf \<or> missing_str sender"
      "resp = Bad_request ''Missing required parameters''" "d' = d"
  | (debit_failed) m a r p s e where
      "mint = Some m" "amnt = Some a" "rcpt = Some r" "prf = Some p" "sender = Some s"
      "updatePrivateBalance d s m a False = (Inl e, d')" "resp = Server_error e"
  | (pool_failed) m a r p s row1 d1 d2 e where
      "mint = Some m" "amnt = Some a" "rcpt = Some r" "prf = Some p" "sender = Some s"
      "updatePrivateBalance d s m a False = (Inr row1, d1)"
      "updateTokenPoolUnshielded d1 m a = (Inr (), d2)"
      "getOrCreateTokenPool getPoolAddress d2 m 0 = (Inl e, d')" "resp = Server_error e"
  | (payout_failed) m a r p s row1 d1 d2 pool where
      "mint = Some m" "amnt = Some a" "rcpt = Some r" "prf = Some p" "sender = Some s"
      "updatePrivateBalance d s m a False = (Inr row1, d1)"
      "updateTokenPoolUnshielded d1 m a = (Inr (), d2)"
      "getOrCreateTokenPool getPoolAddress d2 m 0 = (Inr pool, d')"
      "m \<noteq> ''SOL''" "\<not> splPrepare m (poolAddress pool) r"
      "resp = Server_error ExternalFailure"
  | (log_failed) m a r p s row1 d1 d2 pool d3 e where
      "mint = Some m" "amnt = Some a" "rcpt = Some r" "prf = Some p" "sender = Some s"
      "updatePrivateBalance d s m a False = (Inr row1, d1)"
      "updateTokenPoolUnshielded d1 m a = (Inr (), d2)"
      "getOrCreateTokenPool getPoolAddress d2 m 0 = (Inr pool, d3)"
      "recordTransaction d3 s Unshield m (resolveSymbol d3 m) a
         (''simulated-unshield-'' @ toString nowSig) None now = (Inl e, d')"
      "resp = Server_error e"
  | (accepted) m a r p s row1 d1 d2 pool d3 row3 where
      "mint = Some m" "amnt = Some a" "rcpt = Some r" "prf = Some p" "sender = Some s"
      "updatePrivateBalance d s m a False = (Inr row1, d1)"
      "updateTokenPoolUnshielded d1 m a = (Inr (), d2)"
      "getOrCreateTokenPool getPoolAddress d2 m 0 = (Inr pool, d3)"
      "recordTransaction d3 s Unshield m (resolveSymbol d3 m) a
         (''simulated-unshield-'' @ toString nowSig) None now = (Inr row3, d')"
      "resp = Ok_signature (''simulated-unshield-'' @ toString nowSig)"
proof (cases "missing_str mint \<or> missing_num amnt \<or> missing_str rcpt \<or> missing_str prf \<or> missing_str sender")
  case True
  with assms show ?thesis by (intro missing) (auto simp: unshield_def)
next
  case False
  then obtain m a r p s where f: "mint = Some m" "amnt = Some a" "rcpt = Some r" "prf = Some p" "sender = Some s"
    using not_missing_strD not_missing_numD by metis
  obtain res1 d1 where u1: "updatePrivateBalance d s m a False = (res1, d1)"
    by (cases "updatePrivateBalance d s m a False")
  show ?thesis
  proof (cases res1)
    case (Inl e)
    with False assms f u1 show ?thesis
      by (intro debit_failed [of m a r p s e]) (auto simp: unshield_def)
  next
    case (Inr row1)
    obtain res2 d2 where u2: "updateTokenPoolUnshielded d1 m a = (res2, d2)"
      by (cases "updateTokenPoolUnshielded d1 m a")
    then have r2: "res2 = Inr ()" by (rule updateTokenPoolUnshielded_frame(3))
    obtain res3 d3 where u3: "getOrCreateTokenPool getPoolAddress d2 m 0 = (res3, d3)"
      by (cases "getOrCreateTokenPool getPoolAddress d2 m 0")
    from False assms f u1 Inr u2 r2 u3 show ?thesis
      by (auto simp: unshield_def Let_def split: prod.splits sum.splits if_splits
          intro: pool_failed payout_failed log_failed accepted)
  qed
qed

section \<open>Non-negative balances\<close>

lemma updatePrivateBalance_existing_nonneg:
  "private_balances d (ownr, mint) = Some r \<Longrightarrow>
   updatePrivateBalance d ownr mint amnt isAddition = (Inr row, d') \<Longrightarrow> 0 \<le> balance row"
  by (auto simp: updatePrivateBalance_simps Let_def split: if_splits)

lemma updatePrivateBalance_keeps_nonneg:
  assumes "0 \<le> amnt"
      and "\<And>k row. private_balances d k = Some row \<Longrightarrow> 0 \<le> balance row"
      and "private_balances (snd (updatePrivateBalance d ownr mint amnt isAddition)) k = Some row"
  shows "0 \<le> balance row"
  using assms
  by (auto simp: updatePrivateBalance_simps Let_def split: option.splits if_splits)

text \<open>
  C3. The claim asks that every completed call of \<open>updatePrivateBalance\<close>, creation of a
  record included, leaves every stored balance at zero or above. The update of an
  existing record checks \<open>newBalance < 0\<close>; the creation of a record does not check the
  amount it inserts. A credit of \<open>-5\<close> for an owner without a record stores the balance \<open>-5\<close>,
  and \<^verbatim>\<open>/send\<close> reaches that path: sending \<open>-5\<close> from \<open>A\<close> to \<open>B\<close> is accepted and leaves
  \<open>B\<close> with \<open>-5\<close>.
\<close>

theorem negative_credit_creates_negative_balance:
  "updatePrivateBalance db_A100 ''B'' ''SOL'' (- 5) True =
     (Inr \<lparr>balance = - 5, lastCommitmentIndex = 0\<rparr>,
      db_A100\<lparr>private_balances :=
        (private_balances db_A100)((''B'', ''SOL'') \<mapsto> \<lparr>balance = - 5, lastCommitmentIndex = 0\<rparr>)\<rparr>)
   \<and> fst (send 17 18 db_A100 (Some ''SOL'') (Some (- 5)) (Some ''B'') (Some ''p'') (Some ''A'')) =
       Ok_signature ''simulated-send-17''
   \<and> private_balances (snd (send 17 18 db_A100 (Some ''SOL'') (Some (- 5)) (Some ''B'') (Some ''p'') (Some ''A'')))
        (''B'', ''SOL'') = Some \<lparr>balance = - 5, lastCommitmentIndex = 0\<rparr>"
  by (simp add: send_def db_A100_def missing_str_def missing_num_def updatePrivateBalance_simps
      Let_def recordTransaction_def toString_def digits.simps digit_def)

section \<open>Amounts that are zero or negative\<close>




section \<open>Pool totals\<close>




section \<open>The ledger is written before the log\<close>

lemma send_logged:
  assumes "transactions (snd (send nowSig now d mint amnt rcpt prf sender)) \<noteq> transactions d"
  shows "\<exists>m a r s row1 d1 row2 d2.
           mint = Some m \<and> amnt = Some a \<and> rcpt = Some r \<and> sender = Some s
           \<and> updatePrivateBalance d s m a False = (Inr row1, d1)
           \<and> updatePrivateBalance d1 r m a True = (Inr row2, d2)
           \<and> private_balances (snd (send nowSig now d mint amnt rcpt prf sender)) = private_balances d2
           \<and> transactions (snd (send nowSig now d mint amnt rcpt prf sender)) =
               transactions d @
                 [\<lparr>owner = s, txType = Send, tokenMint = m, tokenSymbol = resolveSymbol d2 m,
                   amount = a, timestamp = now, recipient = Some r,
                   signature = ''simulated-send-'' @ toString nowSig\<rparr>]
           \<and> ''simulated-send-'' @ toString nowSig \<notin> set (map signature (transactions d))"
proof -
  obtain resp d' where eq: "send nowSig now d mint amnt rcpt prf sender = (resp, d')"
    by (cases "send nowSig now d mint amnt rcpt prf sender")
  from assms eq have changed: "transactions d' \<noteq> transactions d" by simp
  from eq show ?thesis
  proof (cases rule: send_elim)
    case missing
    with changed show ?thesis by simp
  next
    case (debit_failed m a r p s e)
    from debit_failed(6) have "d' = d" by (rule updatePrivateBalance_Inl)
    with changed show ?thesis by simp
  next
    case (credit_failed m a r p s row1 d1 e)
    from credit_failed(7) have "d' = d1" by (rule updatePrivateBalance_Inl)
    moreover from credit_failed(6) have "transactions d1 = transactions d"
      by (rule updatePrivateBalance_frame(1))
    ultimately show ?thesis using changed by simp
  next
    case (log_failed m a r p s row1 d1 row2 d2 e)
    from log_failed(8) have "d' = d2" by (simp add: recordTransaction_Inl)
    moreover from log_failed(6) have "transactions d1 = transactions d"
      by (rule updatePrivateBalance_frame(1))
    moreover from log_failed(7) have "transactions d2 = transactions d1"
      by (rule updatePrivateBalance_frame(1))
    ultimately show ?thesis using changed by simp
  next
    case (accepted m a r p s row1 d1 row2 d2 row3)
    from accepted(6) have "transactions d1 = transactions d"
      by (rule updatePrivateBalance_frame(1))
    moreover from accepted(7) have "transactions d2 = transactions d1"
      by (rule updatePrivateBalance_frame(1))
    moreover from accepted(8) have "private_balances d' = private_balances d2"
      by (rule recordTransaction_frame(1))
    moreover note recordTransaction_Inr [OF accepted(8)]
    ultimately show ?thesis
      using accepted(1-7) eq by simp
  qed
qed

lemma shield_notify_logged:
  assumes "transactions (snd (shield_notify getTransaction now d txSignature mint amnt commitment ownr))
             \<noteq> transactions d"
  shows "\<exists>sg m a ow row1 d1.
           txSignature = Some sg \<and> mint = Some m \<and> amnt = Some a \<and> ownr = Some ow
           \<and> updatePrivateBalance d ow m a True = (Inr row1, d1)
           \<and> private_balances (snd (shield_notify getTransaction now d txSignature mint amnt commitment ownr))
               = private_balances d1
           \<and> transactions (snd (shield_notify getTransaction now d txSignature mint amnt commitment ownr)) =
               transactions d @
                 [\<lparr>owner = ow, txType = Shield, tokenMint = m,
                   tokenSymbol = resolveSymbol (snd (updateTokenPoolShielded d1 m a)) m,
                   amount = a, timestamp = now, recipient = None, signature = sg\<rparr>]
           \<and> sg \<notin> set (map signature (transactions d))"
proof -
  obtain resp d' where eq:
    "shield_notify getTransaction now d txSignature mint amnt commitment ownr = (resp, d')"
    by (cases "shield_notify getTransaction now d txSignature mint amnt commitment ownr")
  from assms eq have changed: "transactions d' \<noteq> transactions d" by simp
  from eq show ?thesis
  proof (cases rule: shield_notify_elim)
    case missing
    with changed show ?thesis by simp
  next
    case not_verified
    with changed show ?thesis by simp
  next
    case (credit_failed sg m a ow e)
    from credit_failed(5) have "d' = d" by (rule updatePrivateBalance_Inl)
    with changed show ?thesis by simp
  next
    case (log_failed sg m a ow row1 d1 d2 e)
    from log_failed(7) have "d' = d2" by (simp add: recordTransaction_Inl)
    moreover from log_failed(5) have "transactions d1 = transactions d"
      by (rule updatePrivateBalance_frame(1))
    moreover from log_failed(6) have "transactions d2 = transactions d1"
      by (rule updateTokenPoolShielded_frame(1))
    ultimately show ?thesis using changed by simp
  next
    case (accepted sg m a ow row1 d1 d2 row3)
    from accepted(5) have "transactions d1 = transactions d"
      by (rule updatePrivateBalance_frame(1))
    moreover from accepted(6) have "transactions d2 = transactions d1"
      and "private_balances d2 = private_balances d1"
      by (rule updateTokenPoolShielded_frame(1), rule updateTokenPoolShielded_frame(2))
    moreover from accepted(7) have "private_balances d' = private_balances d2"
      by (rule recordTransaction_frame(1))
    moreover note recordTransaction_Inr [OF accepted(7)]
    ultimately show ?thesis
      using accepted(1-6) eq by simp
  qed
qed

lemma unshield_logged:
  assumes "transactions (snd (unshield getPoolAddress splPrepare nowSig now d mint amnt rcpt prf sender))
             \<noteq> transactions d"
  shows "\<exists>m a s row1 d1.
           mint = Some m \<and> amnt = Some a \<and> sender = Some s
           \<and> updatePrivateBalance d s m a False = (Inr row1, d1)
           \<and> private_balances (snd (unshield getPoolAddress splPrepare nowSig now d mint amnt rcpt prf sender))
               = private_balances d1
           \<and> (\<exists>symbol. transactions (snd (unshield getPoolAddress splPrepare nowSig now d mint amnt rcpt prf sender)) =
               transactions d @
                 [\<lparr>owner = s, txType = Unshield, tokenMint = m, tokenSymbol = symbol,
                   amount = a, timestamp = now, recipient = None,
                   signature = ''simulated-unshield-'' @ toString nowSig\<rparr>])
           \<and> ''simulated-unshield-'' @ toString nowSig \<notin> set (map signature (transactions d))"
proof -
  obtain resp d' where eq:
    "unshield getPoolAddress splPrepare nowSig now d mint amnt rcpt prf sender = (resp, d')"
    by (cases "unshield getPoolAddress splPrepare nowSig now d mint amnt rcpt prf sender")
  from assms eq have changed: "transactions d' \<noteq> transactions d" by simp
  from eq show ?thesis
  proof (cases rule: unshield_elim)
    case missing
    with changed show ?thesis by simp
  next
    case (debit_failed m a r p s e)
    from debit_failed(6) have "d' = d" by (rule updatePrivateBalance_Inl)
    with changed show ?thesis by simp
  next
    case (pool_failed m a r p s row1 d1 d2 e)
    from pool_failed(6) have "transactions d1 = transactions d"
      by (rule updatePrivateBalance_frame(1))
    moreover from pool_failed(7) have "transactions d2 = transactions d1"
      by (rule updateTokenPoolUnshielded_frame(1))
    moreover from pool_failed(8) have "transactions d' = transactions d2"
      by (rule getOrCreateTokenPool_frame(1))
    ultimately show ?thesis using changed by simp
  next
    case (payout_failed m a r p s row1 d1 d2 pool)
    from payout_failed(6) have "transactions d1 = transactions d"
      by (rule updatePrivateBalance_frame(1))
    moreover from payout_failed(7) have "transactions d2 = transactions d1"
      by (rule updateTokenPoolUnshielded_frame(1))
    moreover from payout_failed(8) have "transactions d' = transactions d2"
      by (rule getOrCreateTokenPool_frame(1))
    ultimately show ?thesis using changed by simp
  next
    case (log_failed m a r p s row1 d1 d2 pool d3 e)
    from log_failed(9) have "d' = d3" by (simp add: recordTransaction_Inl)
    moreover from log_failed(6) have "transactions d1 = transactions d"
      by (rule updatePrivateBalance_frame(1))
    moreover from log_failed(7) have "transactions d2 = transactions d1"
      by (rule updateTokenPoolUnshielded_frame(1))
    moreover from log_failed(8) have "transactions d3 = transactions d2"
      by (rule getOrCreateTokenPool_frame(1))
    ultimately show ?thesis using changed by simp
  next
    case (accepted m a r p s row1 d1 d2 pool d3 row3)
    from accepted(6) have "transactions d1 = transactions d"
      by (rule updatePrivateBalance_frame(1))
    moreover from accepted(7) have "transactions d2 = transactions d1"
      and "private_balances d2 = private_balances d1"
      by (rule updateTokenPoolUnshielded_frame(1), rule updateTokenPoolUnshielded_frame(2))
    moreover from accepted(8) have "transactions d3 = transactions d2"
      and "private_balances d3 = private_balances d2"
      by (rule getOrCreateTokenPool_frame(1), rule getOrCreateTokenPool_frame(2))
    moreover from accepted(9) have "private_balances d' = private_balances d3"
      by (rule recordTransaction_frame(1))
    moreover note recordTransaction_Inr [OF accepted(9)]
    ultimately show ?thesis
      using accepted(1-6) eq by simp
  qed
qed

text \<open>
  C6. In \<^verbatim>\<open>/send\<close>, \<^verbatim>\<open>/shield/notify\<close> and \<^verbatim>\<open>/unshield\<close> the log is written
  after the ledger. Whenever an operation changes the transaction log, its calls of
  \<open>updatePrivateBalance\<close> have succeeded, the balances of the final database are the
  ones those calls produced, and the log has grown by exactly one row, for the owner,
  mint and amount of the operation. When the ledger mutation fails, the log is as before.
\<close>

theorem ledger_mutation_precedes_log:
  "(transactions (snd (send nowSig now d mint amnt rcpt prf sender)) \<noteq> transactions d \<longrightarrow>
      (\<exists>m a r s row1 d1 row2 d2.
           mint = Some m \<and> amnt = Some a \<and> rcpt = Some r \<and> sender = Some s
           \<and> updatePrivateBalance d s m a False = (Inr row1, d1)
           \<and> updatePrivateBalance d1 r m a True = (Inr row2, d2)
           \<and> private_balances (snd (send nowSig now d mint amnt rcpt prf sender)) = private_balances d2
           \<and> transactions (snd (send nowSig now d mint amnt rcpt prf sender)) =
               transactions d @
                 [\<lparr>owner = s, txType = Send, tokenMint = m, tokenSymbol = resolveSymbol d2 m,
                   amount = a, timestamp = now, recipient = Some r,
                   signature = ''simulated-send-'' @ toString nowSig\<rparr>]))
   \<and> (transactions (snd (shield_notify getTransaction now d txSignature mint amnt commitment ownr))
         \<noteq> transactions d \<longrightarrow>
      (\<exists>sg m a ow row1 d1.
           txSignature = Some sg \<and> mint = Some m \<and> amnt = Some a \<and> ownr = Some ow
           \<and> updatePrivateBalance d ow m a True = (Inr row1, d1)
           \<and> private_balances (snd (shield_notify getTransaction now d txSignature mint amnt commitment ownr))
               = private_balances d1
           \<and> transactions (snd (shield_notify getTransaction now d txSignature mint amnt commitment ownr)) =
               transactions d @
                 [\<lparr>owner = ow, txType = Shield, tokenMint = m,
                   tokenSymbol = resolveSymbol (snd (updateTokenPoolShielded d1 m a)) m,
                   amount = a, timestamp = now, recipient = None, signature = sg\<rparr>]))
   \<and> (transactions (snd (unshield getPoolAddress splPrepare nowSig now d mint amnt rcpt prf sender))
         \<noteq> transactions d \<longrightarrow>
      (\<exists>m a s row1 d1.
           mint = Some m \<and> amnt = Some a \<and> sender = Some s
           \<and> updatePrivateBalance d s m a False = (Inr row1, d1)
           \<and> private_balances (snd (unshield getPoolAddress splPrepare nowSig now d mint amnt rcpt prf sender))
               = private_balances d1
           \<and> (\<exists>symbol. transactions (snd (unshield getPoolAddress splPrepare nowSig now d mint amnt rcpt prf sender)) =
               transactions d @
                 [\<lparr>owner = s, txType = Unshield, tokenMint = m, tokenSymbol = symbol,
                   amount = a, timestamp = now, recipient = None,
                   signature = ''simulated-unshield-'' @ toString nowSig\<rparr>])))
   \<and> (updatePrivateBalance d s' m' a' False = (Inl e, d1') \<longrightarrow>
        transactions (snd (send nowSig now d (Some m') (Some a') rcpt prf (Some s'))) = transactions d
        \<and> transactions (snd (unshield getPoolAddress splPrepare nowSig now d (Some m') (Some a') rcpt prf (Some s')))
            = transactions d)
   \<and> (updatePrivateBalance d s' m' a' True = (Inl e, d1') \<longrightarrow>
        transactions (snd (shield_notify getTransaction now d txSignature (Some m') (Some a') commitment (Some s')))
          = transactions d)"
proof (intro conjI impI)
  assume "transactions (snd (send nowSig now d mint amnt rcpt prf sender)) \<noteq> transactions d"
  from send_logged [OF this]
  show "\<exists>m a r s row1 d1 row2 d2.
           mint = Some m \<and> amnt = Some a \<and> rcpt = Some r \<and> sender = Some s
           \<and> updatePrivateBalance d s m a False = (Inr row1, d1)
           \<and> updatePrivateBalance d1 r m a True = (Inr row2, d2)
           \<and> private_balances (snd (send nowSig now d mint amnt rcpt prf sender)) = private_balances d2
           \<and> transactions (snd (send nowSig now d mint amnt rcpt prf sender)) =
               transactions d @
                 [\<lparr>owner = s, txType = Send, tokenMint = m, tokenSymbol = resolveSymbol d2 m,
                   amount = a, timestamp = now, recipient = Some r,
                   signature = ''simulated-send-'' @ toString nowSig\<rparr>]"
    by blast
next
  assume "transactions (snd (shield_notify getTransaction now d txSignature mint amnt commitment ownr))
         \<noteq> transactions d"
  from shield_notify_logged [OF this]
  show "\<exists>sg m a ow row1 d1.
           txSignature = Some sg \<and> mint = Some m \<and> amnt = Some a \<and> ownr = Some ow
           \<and> updatePrivateBalance d ow m a True = (Inr row1, d1)
           \<and> private_balances (snd (shield_notify getTransaction now d txSignature mint amnt commitment ownr))
               = private_balances d1
           \<and> transactions (snd (shield_notify getTransaction now d txSignature mint amnt commitment ownr)) =
               transactions d @
                 [\<lparr>owner = ow, txType = Shield, tokenMint = m,
                   tokenSymbol = resolveSymbol (snd (updateTokenPoolShielded d1 m a)) m,
                   amount = a, timestamp = now, recipient = None, signature = sg\<rparr>]"
    by blast
next
  assume "transactions (snd (unshield getPoolAddress splPrepare nowSig now d mint amnt rcpt prf sender))
         \<noteq> transactions d"
  from unshield_logged [OF this]
  show "\<exists>m a s row1 d1.
           mint = Some m \<and> amnt = Some a \<and> sender = Some s
           \<and> updatePrivateBalance d s m a False = (Inr row1, d1)
           \<and> private_balances (snd (unshield getPoolAddress splPrepare nowSig now d mint amnt rcpt prf sender))
               = private_balances d1
           \<and> (\<exists>symbol. transactions (snd (unshield getPoolAddress splPrepare nowSig now d mint amnt rcpt prf sender)) =
               transactions d @
                 [\<lparr>owner = s, txType = Unshield, tokenMint = m, tokenSymbol = symbol,
                   amount = a, timestamp = now, recipient = None,
                   signature = ''simulated-unshield-'' @ toString nowSig\<rparr>])"
    by blast
next
  assume f: "updatePrivateBalance d s' m' a' False = (Inl e, d1')"
  show "transactions (snd (send nowSig now d (Some m') (Some a') rcpt prf (Some s'))) = transactions d"
  proof (rule ccontr)
    assume "transactions (snd (send nowSig now d (Some m') (Some a') rcpt prf (Some s'))) \<noteq> transactions d"
    from send_logged [OF this] f show False by auto
  qed
  show "transactions (snd (unshield getPoolAddress splPrepare nowSig now d (Some m') (Some a') rcpt prf (Some s')))
            = transactions d"
  proof (rule ccontr)
    assume "transactions (snd (unshield getPoolAddress splPrepare nowSig now d (Some m') (Some a') rcpt prf (Some s')))
            \<noteq> transactions d"
    from unshield_logged [OF this] f show False by auto
  qed
next
  assume f: "updatePrivateBalance d s' m' a' True = (Inl e, d1')"
  show "transactions (snd (shield_notify getTransaction now d txSignature (Some m') (Some a') commitment (Some s')))
          = transactions d"
  proof (rule ccontr)
    assume "transactions (snd (shield_notify getTransaction now d txSignature (Some m') (Some a') commitment (Some s')))
          \<noteq> transactions d"
    from shield_notify_logged [OF this] f show False by auto
  qed
qed

section \<open>Evaluating the operations on the examples\<close>

lemmas eval_defs = send_def unshield_def shield_notify_def db_A100_def db_pool_def missing_str_def
  missing_num_def updatePrivateBalance_simps Let_def recordTransaction_def toString_def digits.simps
  digit_def updateTokenPoolShielded_def updateTokenPoolUnshielded_def getOrCreateTokenPool_def
  getTokenPool_def createTokenPool_def resolveSymbol_def

theorem ledger_mutation_precedes_log_witness:
  "transactions (snd (send 17 18 db_A100 (Some ''SOL'') (Some 30) (Some ''B'') (Some ''p'') (Some ''A'')))
     \<noteq> transactions db_A100
   \<and> (\<exists>row1 d1 row2 d2.
         updatePrivateBalance db_A100 ''A'' ''SOL'' 30 False = (Inr row1, d1)
         \<and> updatePrivateBalance d1 ''B'' ''SOL'' 30 True = (Inr row2, d2)
         \<and> private_balances (snd (send 17 18 db_A100 (Some ''SOL'') (Some 30) (Some ''B'') (Some ''p'') (Some ''A'')))
             = private_balances d2)
   \<and> transactions (snd (shield_notify (\<lambda>sg. TxConfirmed) 18 db_A100 (Some ''sig9'') (Some ''SOL'') (Some 5)
         (Some ''c'') (Some ''A''))) \<noteq> transactions db_A100
   \<and> (\<exists>row1 d1.
         updatePrivateBalance db_A100 ''A'' ''SOL'' 5 True = (Inr row1, d1)
         \<and> private_balances (snd (shield_notify (\<lambda>sg. TxConfirmed) 18 db_A100 (Some ''sig9'') (Some ''SOL'')
               (Some 5) (Some ''c'') (Some ''A''))) = private_balances d1)
   \<and> transactions (snd (unshield (\<lambda>m. Some ''pool'') (\<lambda>m a r. True) 17 18 db_A100 (Some ''SOL'') (Some 30)
         (Some ''R'') (Some ''p'') (Some ''A''))) \<noteq> transactions db_A100
   \<and> (\<exists>row1 d1.
         updatePrivateBalance db_A100 ''A'' ''SOL'' 30 False = (Inr row1, d1)
         \<and> private_balances (snd (unshield (\<lambda>m. Some ''pool'') (\<lambda>m a r. True) 17 18 db_A100 (Some ''SOL'')
               (Some 30) (Some ''R'') (Some ''p'') (Some ''A''))) = private_balances d1)
   \<and> updatePrivateBalance db_A100 ''A'' ''SOL'' 150 False = (Inl InsufficientBalance, db_A100)
   \<and> transactions (snd (send 17 18 db_A100 (Some ''SOL'') (Some 150) (Some ''B'') (Some ''p'') (Some ''A'')))
       = transactions db_A100
   \<and> updatePrivateBalance db_A100 ''A'' ''SOL'' (- 150) True = (Inl InsufficientBalance, db_A100)
   \<and> transactions (snd (shield_notify (\<lambda>sg. TxConfirmed) 18 db_A100 (Some ''sig9'') (Some ''SOL'')
         (Some (- 150)) (Some ''c'') (Some ''A''))) = transactions db_A100"
proof -
  have h1: "transactions (snd (send 17 18 db_A100 (Some ''SOL'') (Some 30) (Some ''B'') (Some ''p'') (Some ''A'')))
     \<noteq> transactions db_A100"
    by (simp add: eval_defs)
  have h2: "transactions (snd (shield_notify (\<lambda>sg. TxConfirmed) 18 db_A100 (Some ''sig9'') (Some ''SOL'') (Some 5)
         (Some ''c'') (Some ''A''))) \<noteq> transactions db_A100"
    by (simp add: eval_defs)
  have h3: "transactions (snd (unshield (\<lambda>m. Some ''pool'') (\<lambda>m a r. True) 17 18 db_A100 (Some ''SOL'') (Some 30)
         (Some ''R'') (Some ''p'') (Some ''A''))) \<noteq> transactions db_A100"
    by (simp add: eval_defs)
  have h4: "updatePrivateBalance db_A100 ''A'' ''SOL'' 150 False = (Inl InsufficientBalance, db_A100)"
    by (simp add: eval_defs)
  have h5: "updatePrivateBalance db_A100 ''A'' ''SOL'' (- 150) True = (Inl InsufficientBalance, db_A100)"
    by (simp add: eval_defs)
  note c1 = ledger_mutation_precedes_log [THEN conjunct1, THEN mp, OF h1]
  note c2 = ledger_mutation_precedes_log [THEN conjunct2, THEN conjunct1, THEN mp, OF h2]
  note c3 = ledger_mutation_precedes_log [THEN conjunct2, THEN conjunct2, THEN conjunct1, THEN mp, OF h3]
  note c4 = ledger_mutation_precedes_log
              [THEN conjunct2, THEN conjunct2, THEN conjunct2, THEN conjunct1, THEN mp, OF h4, THEN conjunct1]
  note c5 = ledger_mutation_precedes_log
              [THEN conjunct2, THEN conjunct2, THEN conjunct2, THEN conjunct2, THEN mp, OF h5]
  from c1 have e1: "\<exists>row1 d1 row2 d2.
         updatePrivateBalance db_A100 ''A'' ''SOL'' 30 False = (Inr row1, d1)
         \<and> updatePrivateBalance d1 ''B'' ''SOL'' 30 True = (Inr row2, d2)
         \<and> private_balances (snd (send 17 18 db_A100 (Some ''SOL'') (Some 30) (Some ''B'') (Some ''p'') (Some ''A'')))
             = private_balances d2"
    by blast
  from c2 have e2: "\<exists>row1 d1.
         updatePrivateBalance db_A100 ''A'' ''SOL'' 5 True = (Inr row1, d1)
         \<and> private_balances (snd (shield_notify (\<lambda>sg. TxConfirmed) 18 db_A100 (Some ''sig9'') (Some ''SOL'')
               (Some 5) (Some ''c'') (Some ''A''))) = private_balances d1"
    by blast
  from c3 have e3: "\<exists>row1 d1.
         updatePrivateBalance db_A100 ''A'' ''SOL'' 30 False = (Inr row1, d1)
         \<and> private_balances (snd (unshield (\<lambda>m. Some ''pool'') (\<lambda>m a r. True) 17 18 db_A100 (Some ''SOL'')
               (Some 30) (Some ''R'') (Some ''p'') (Some ''A''))) = private_balances d1"
    by blast
  from h1 e1 h2 e2 h3 e3 h4 c4 h5 c5 show ?thesis by blast
qed

section \<open>The log only grows, with distinct signatures\<close>

lemma recordTransaction_log:
  "prefix (transactions d) (transactions (snd (recordTransaction d ownr ty mint symbol amnt sig rcpt now)))"
  "distinct (map signature (transactions d)) \<Longrightarrow>
     distinct (map signature (transactions (snd (recordTransaction d ownr ty mint symbol amnt sig rcpt now))))"
  by (auto simp: recordTransaction_def Let_def)

lemma send_log:
  "prefix (transactions d) (transactions (snd (send nowSig now d mint amnt rcpt prf sender)))"
  "distinct (map signature (transactions d)) \<Longrightarrow>
     distinct (map signature (transactions (snd (send nowSig now d mint amnt rcpt prf sender))))"
proof -
  show "prefix (transactions d) (transactions (snd (send nowSig now d mint amnt rcpt prf sender)))"
  proof (cases "transactions (snd (send nowSig now d mint amnt rcpt prf sender)) = transactions d")
    case True
    then show ?thesis by simp
  next
    case False
    from send_logged [OF this] show ?thesis by auto
  qed
  assume dist: "distinct (map signature (transactions d))"
  show "distinct (map signature (transactions (snd (send nowSig now d mint amnt rcpt prf sender))))"
  proof (cases "transactions (snd (send nowSig now d mint amnt rcpt prf sender)) = transactions d")
    case True
    with dist show ?thesis by simp
  next
    case False
    from send_logged [OF this] dist show ?thesis by auto
  qed
qed

lemma shield_notify_log:
  "prefix (transactions d)
     (transactions (snd (shield_notify getTransaction now d txSignature mint amnt commitment ownr)))"
  "distinct (map signature (transactions d)) \<Longrightarrow>
     distinct (map signature
       (transactions (snd (shield_notify getTransaction now d txSignature mint amnt commitment ownr))))"
proof -
  show "prefix (transactions d)
     (transactions (snd (shield_notify getTransaction now d txSignature mint amnt commitment ownr)))"
  proof (cases "transactions (snd (shield_notify getTransaction now d txSignature mint amnt commitment ownr))
                  = transactions d")
    case True
    then show ?thesis by simp
  next
    case False
    from shield_notify_logged [OF this] show ?thesis by auto
  qed
  assume dist: "distinct (map signature (transactions d))"
  show "distinct (map signature
       (transactions (snd (shield_notify getTransaction now d txSignature mint amnt commitment ownr))))"
  proof (cases "transactions (snd (shield_notify getTransaction now d txSignature mint amnt commitment ownr))
                  = transactions d")
    case True
    with dist show ?thesis by simp
  next
    case False
    from shield_notify_logged [OF this] dist show ?thesis by auto
  qed
qed

lemma unshield_log:
  "prefix (transactions d)
     (transactions (snd (unshield getPoolAddress splPrepare nowSig now d mint amnt rcpt prf sender)))"
  "distinct (map signature (transactions d)) \<Longrightarrow>
     distinct (map signature
       (transactions (snd (unshield getPoolAddress splPrepare nowSig now d mint amnt rcpt prf sender))))"
proof -
  show "prefix (transactions d)
     (transactions (snd (unshield getPoolAddress splPrepare nowSig now d mint amnt rcpt prf sender)))"
  proof (cases "transactions (snd (unshield getPoolAddress splPrepare nowSig now d mint amnt rcpt prf sender))
                  = transactions d")
    case True
    then show ?thesis by simp
  next
    case False
    from unshield_logged [OF this] show ?thesis by auto
  qed
  assume dist: "distinct (map signature (transactions d))"
  show "distinct (map signature
       (transactions (snd (unshield getPoolAddress splPrepare nowSig now d mint amnt rcpt prf sender))))"
  proof (cases "transactions (snd (unshield getPoolAddress splPrepare nowSig now d mint amnt rcpt prf sender))
                  = transactions d")
    case True
    with dist show ?thesis by simp
  next
    case False
    from unshield_logged [OF this] dist show ?thesis by auto
  qed
qed

lemma other_calls_keep_log:
  "transactions (snd (updatePrivateBalance d ownr mint amnt isAddition)) = transactions d"
  "transactions (snd (updateTokenPoolShielded d mint amnt)) = transactions d"
  "transactions (snd (updateTokenPoolUnshielded d mint amnt)) = transactions d"
  "transactions (snd (createTokenPool d mint dec addr)) = transactions d"
  "transactions (snd (getOrCreateTokenPool getPoolAddress d mint dec)) = transactions d"
  by (rule updatePrivateBalance_frame(1) [OF surjective_pairing]
      updateTokenPoolShielded_frame(1) [OF surjective_pairing]
      updateTokenPoolUnshielded_frame(1) [OF surjective_pairing]
      createTokenPool_frame(1) [OF surjective_pairing]
      getOrCreateTokenPool_frame(1) [OF surjective_pairing])+

text \<open>
  C7. \<open>recordTransaction\<close> with a signature that is already in the transaction log fails
  with \<open>DuplicateSignature\<close> and returns the database as it was, so no second row is
  created. Signatures stay pairwise distinct, and the rows already stored stay as they
  are, in place: the log after \<open>recordTransaction\<close>, and after each of the three
  operations of the relayer, has the log before as a prefix; every other call of
  db-service.ts leaves the log untouched.
\<close>

theorem recordTransaction_unique_signature:
  "(sig \<in> set (map signature (transactions d)) \<longrightarrow>
      recordTransaction d ownr ty mint symbol amnt sig rcpt now = (Inl DuplicateSignature, d))
   \<and> (distinct (map signature (transactions d)) \<longrightarrow>
        distinct (map signature (transactions (snd (recordTransaction d ownr ty mint symbol amnt sig rcpt now))))
        \<and> distinct (map signature (transactions (snd (send nowSig now d mintF amntF rcptF prfF senderF))))
        \<and> distinct (map signature
             (transactions (snd (shield_notify getTransaction now d txSignature mintF amntF commitment senderF))))
        \<and> distinct (map signature
             (transactions (snd (unshield getPoolAddress splPrepare nowSig now d mintF amntF rcptF prfF senderF)))))
   \<and> prefix (transactions d) (transactions (snd (recordTransaction d ownr ty mint symbol amnt sig rcpt now)))
   \<and> prefix (transactions d) (transactions (snd (send nowSig now d mintF amntF rcptF prfF senderF)))
   \<and> prefix (transactions d)
        (transactions (snd (shield_notify getTransaction now d txSignature mintF amntF commitment senderF)))
   \<and> prefix (transactions d)
        (transactions (snd (unshield getPoolAddress splPrepare nowSig now d mintF amntF rcptF prfF senderF)))
   \<and> transactions (snd (updatePrivateBalance d ownr mint amnt isAddition)) = transactions d
   \<and> transactions (snd (updateTokenPoolShielded d mint amnt)) = transactions d
   \<and> transactions (snd (updateTokenPoolUnshielded d mint amnt)) = transactions d
   \<and> transactions (snd (createTokenPool d mint dec addr)) = transactions d"
  using recordTransaction_log [of d ownr ty mint symbol amnt sig rcpt now]
    send_log [of d nowSig now mintF amntF rcptF prfF senderF]
    shield_notify_log [of d getTransaction now txSignature mintF amntF commitment senderF]
    unshield_log [of d getPoolAddress splPrepare nowSig now mintF amntF rcptF prfF senderF]
    other_calls_keep_log(1-4) [of d]
  by (simp add: recordTransaction_def)

theorem recordTransaction_unique_signature_witness:
  "''sig1'' \<in> set (map signature (transactions db_log2))
   \<and> recordTransaction db_log2 ''B'' Send ''SOL'' ''SOL'' 7 ''sig1'' (Some ''C'') 2000
        = (Inl DuplicateSignature, db_log2)
   \<and> distinct (map signature (transactions db_log2))
   \<and> distinct (map signature
        (transactions (snd (recordTransaction db_log2 ''B'' Send ''SOL'' ''SOL'' 7 ''sig1'' (Some ''C'') 2000))))"
proof -
  have h1: "''sig1'' \<in> set (map signature (transactions db_log2))"
    by (simp add: db_log2_def tx1_def tx2_def)
  have h2: "distinct (map signature (transactions db_log2))"
    by (simp add: db_log2_def tx1_def tx2_def)
  note t = recordTransaction_unique_signature
             [where d = db_log2 and sig = "''sig1''" and ownr = "''B''" and ty = Send and mint = "''SOL''"
                and symbol = "''SOL''" and amnt = 7 and rcpt = "Some ''C''" and now = 2000]
  from t [THEN conjunct1, THEN mp, OF h1] t [THEN conjunct2, THEN conjunct1, THEN mp, OF h2, THEN conjunct1]
    h1 h2
  show ?thesis by blast
qed

section \<open>What a send does to the two balances\<close>







section \<open>Listing transactions\<close>

text \<open>
  C9, as stated, fails twice on one call. The log holds two transactions of \<open>A\<close> for
  \<open>SOL\<close> with the same timestamp; listing them for \<open>A\<close> with the mint given as the
  empty string returns both: the result is not strictly descending, and its rows do not
  have the mint that was given.
\<close>

theorem getTransactions_ties_and_empty_mint:
  "map timestamp (getTransactions db_log2 ''A'' (Some '''') (Some 50)) = [1000, 1000]
   \<and> map tokenMint (getTransactions db_log2 ''A'' (Some '''') (Some 50)) = [''SOL'', ''SOL'']"
  by (simp add: getTransactions_def db_log2_def tx1_def tx2_def)

text \<open>
  C9, amended. \<open>getTransactions\<close> returns at most \<open>limit\<close> entries (50 when no limit is
  supplied, none for a negative limit), in descending order of timestamp where entries
  with equal timestamps may follow each other, all of them rows of the log whose owner
  is the given one and, when a non-empty mint is given, whose token mint is that mint.
\<close>

theorem getTransactions_result:
  "length (getTransactions d ownr mint lmt) \<le> nat (case lmt of None \<Rightarrow> 50 | Some n \<Rightarrow> n)
   \<and> sorted_wrt (\<lambda>t u. timestamp u \<le> timestamp t) (getTransactions d ownr mint lmt)
   \<and> (\<forall>t \<in> set (getTransactions d ownr mint lmt).
         t \<in> set (transactions d) \<and> owner t = ownr
         \<and> (\<forall>m. mint = Some m \<and> m \<noteq> [] \<longrightarrow> tokenMint t = m))"
proof (intro conjI)
  show "length (getTransactions d ownr mint lmt) \<le> nat (case lmt of None \<Rightarrow> 50 | Some n \<Rightarrow> n)"
    by (simp add: getTransactions_def Let_def)
next
  have "sorted_wrt (\<lambda>t u. timestamp u \<le> timestamp t) (sort_key (\<lambda>t. - timestamp t) rows)" for rows :: "Transaction list"
    using sorted_sort_key [of "\<lambda>t. - timestamp t" rows] by (simp add: sorted_map)
  then show "sorted_wrt (\<lambda>t u. timestamp u \<le> timestamp t) (getTransactions d ownr mint lmt)"
    by (simp add: getTransactions_def Let_def sorted_wrt_take)
next
  show "\<forall>t \<in> set (getTransactions d ownr mint lmt).
         t \<in> set (transactions d) \<and> owner t = ownr
         \<and> (\<forall>m. mint = Some m \<and> m \<noteq> [] \<longrightarrow> tokenMint t = m)"
    by (auto simp: getTransactions_def Let_def split: if_splits option.splits dest!: in_set_takeD)
qed

theorem getTransactions_result_witness:
  "getTransactions db_log2 ''A'' (Some ''SOL'') (Some 1) = [tx1]
   \<and> length (getTransactions db_log2 ''A'' (Some ''SOL'') (Some 1)) \<le> nat 1
   \<and> tx1 \<in> set (getTransactions db_log2 ''A'' (Some ''SOL'') (Some 1))
   \<and> tx1 \<in> set (transactions db_log2) \<and> owner tx1 = ''A'' \<and> tokenMint tx1 = ''SOL''"
proof -
  have e: "getTransactions db_log2 ''A'' (Some ''SOL'') (Some 1) = [tx1]"
    by (simp add: getTransactions_def db_log2_def tx1_def tx2_def)
  then have m: "tx1 \<in> set (getTransactions db_log2 ''A'' (Some ''SOL'') (Some 1))" by simp
  note t = getTransactions_result [of db_log2 "''A''" "Some ''SOL''" "Some 1"]
  from t [THEN conjunct1] t [THEN conjunct2, THEN conjunct2, THEN bspec, OF m] e m
  show ?thesis by simp
qed

section \<open>Simulated signatures\<close>







end
